theory Spec2Isabelle
  imports Main "HOL-Library.AList"
begin

section \<open>The code processor, as a state-passing model\<close>

text \<open>
  The model is of the class \<open>CodeProcessor\<close>, from \<open>_processProject\<close> down, and of
  its plugin methods. \<open>process\<close>, which reads the manifest, checks that the entry file
  exists and then calls \<open>_processProject\<close>, is not part of it, and neither is the rule
  module at the head of the source file, which belongs to another dispatcher
  (\<open>RuleProcessor\<close>).

  The engine object (\<open>this\<close> in the source) is a record that every method takes and
  returns. A JavaScript exception is the result \<open>Thrown\<close>, carrying the engine as the
  exception leaves it, so that what happened before the throw stays visible. Listener
  callbacks are opaque: a callback is an identifier, and each call the engine makes is
  appended to the engine's \<open>trace\<close> together with the arguments it receives. The calls
  of the per-kind rule methods (\<open>this['_processRule' + ...](rule)\<close>) are traced the same
  way. Calls of \<open>this._log\<close> are left out: they change nothing in the engine.

  Characters are ASCII.
\<close>

subsection \<open>JavaScript values\<close>

datatype jsvalue =
    JSUndefined
  | JSNull
  | JSBool bool
  | JSNum int
  | JSStr string
  | JSObject "(string \<times> jsvalue) list"

fun truthy :: "jsvalue \<Rightarrow> bool" where
  "truthy JSUndefined = False"
| "truthy JSNull = False"
| "truthy (JSBool b) = b"
| "truthy (JSNum n) = (n \<noteq> 0)"
| "truthy (JSStr s) = (s \<noteq> [])"
| "truthy (JSObject ps) = True"

text \<open>\<open>obj[key]\<close> on an object with the own properties \<open>ps\<close>.\<close>

definition get_prop :: "(string \<times> jsvalue) list \<Rightarrow> string \<Rightarrow> jsvalue" where
  "get_prop ps key = (case map_of ps key of None \<Rightarrow> JSUndefined | Some v \<Rightarrow> v)"

text \<open>The decimal numeral of an array index, which is the property name \<open>for (i in keys)\<close> yields.\<close>

definition digit_char :: "nat \<Rightarrow> char" where
  "digit_char d = ''0123456789'' ! (d mod 10)"

fun index_name :: "nat \<Rightarrow> string" where
  "index_name n = (if n < 10 then [digit_char n] else index_name (n div 10) @ [digit_char n])"

declare index_name.simps [simp del]

text \<open>The property name a value is converted to when it is used as a key.\<close>

fun property_key :: "jsvalue \<Rightarrow> string" where
  "property_key JSUndefined = ''undefined''"
| "property_key JSNull = ''null''"
| "property_key (JSBool b) = (if b then ''true'' else ''false'')"
| "property_key (JSNum n) = (if n < 0 then CHR ''-'' # index_name (nat (- n)) else index_name (nat n))"
| "property_key (JSStr s) = s"
| "property_key (JSObject ps) = ''[object Object]''"

text \<open>\<open>capitalize(str)\<close>: \<open>str.substring(0,1).toUpperCase() + str.substring(1)\<close>.\<close>

definition toUpperCase_char :: "char \<Rightarrow> char" where
  "toUpperCase_char c =
     (case map_of (zip ''abcdefghijklmnopqrstuvwxyz'' ''ABCDEFGHIJKLMNOPQRSTUVWXYZ'') c of
        None \<Rightarrow> c | Some u \<Rightarrow> u)"

fun capitalize :: "string \<Rightarrow> string" where
  "capitalize [] = []"
| "capitalize (c # cs) = toUpperCase_char c # cs"

subsection \<open>Rules, contexts, scopes\<close>

text \<open>
  A rule is the array \<open>[ruleInfo, child, ...]\<close> of the parser; \<open>ruleInfo\<close> is an
  object and the dispatcher reads nothing of the children.
\<close>

datatype rule = Rule (ruleInfo: "(string \<times> jsvalue) list") (children: "jsvalue list")

record jscontext =
  ctx_name :: string
  ctx_file :: string
  ctx_line :: int
  ctx_col :: int

record scope =
  context_of :: jscontext
  symbols :: "(string \<times> jsvalue) list"

definition context_value :: "jscontext \<Rightarrow> jsvalue" where
  "context_value c =
     JSObject [(''name'', JSStr (ctx_name c)), (''file'', JSStr (ctx_file c)),
               (''line'', JSNum (ctx_line c)), (''col'', JSNum (ctx_col c))]"

subsection \<open>Arrays used as tables\<close>

text \<open>
  The listener tables are Arrays (\<open>[]\<close>) whose properties the code sets and reads by
  name. A table is the association list of the properties the code has stored; besides
  them an Array has its \<open>length\<close>, the functions it inherits and \<open>__proto__\<close>,
  which is the prototype object \<open>Array.prototype\<close>. The inherited functions are
  those of ECMAScript 5.1 (\<open>Object.prototype\<close> and \<open>Array.prototype\<close>) and the four
  accessor helpers of V8: the source runs on the releases of Node that still have
  \<open>path.existsSync\<close>, which it calls. Storing under an array index (\<open>"0"\<close>,
  \<open>"7"\<close>; at most \<open>2^32 - 2\<close>) raises the length.
\<close>

definition array_inherited :: "string list" where
  "array_inherited =
     [''constructor'', ''toString'', ''toLocaleString'', ''valueOf'', ''hasOwnProperty'',
      ''isPrototypeOf'', ''propertyIsEnumerable'',
      ''concat'', ''join'', ''pop'', ''push'', ''reverse'', ''shift'', ''slice'', ''sort'',
      ''splice'', ''unshift'', ''indexOf'', ''lastIndexOf'', ''every'', ''some'', ''forEach'',
      ''map'', ''filter'', ''reduce'', ''reduceRight'',
      ''__defineGetter__'', ''__defineSetter__'', ''__lookupGetter__'', ''__lookupSetter__'']"

definition digit_value :: "char \<Rightarrow> nat option" where
  "digit_value c = map_of (zip ''0123456789'' [0, 1, 2, 3, 4, 5, 6, 7, 8, 9]) c"

fun digits_value :: "string \<Rightarrow> nat \<Rightarrow> nat option" where
  "digits_value [] acc = Some acc"
| "digits_value (c # cs) acc =
     (case digit_value c of None \<Rightarrow> None | Some d \<Rightarrow> digits_value cs (10 * acc + d))"

definition array_index :: "string \<Rightarrow> nat option" where
  "array_index k =
     (case digits_value k 0 of
        None \<Rightarrow> None
      | Some n \<Rightarrow>
          if k \<noteq> [] \<and> (k = ''0'' \<or> take 1 k \<noteq> ''0'') \<and> n < 4294967295 then Some n else None)"

definition array_length :: "string list \<Rightarrow> nat" where
  "array_length keys =
     fold (\<lambda>k n. case array_index k of None \<Rightarrow> n | Some i \<Rightarrow> max n (Suc i)) keys 0"

text \<open>What \<open>table[name]\<close> evaluates to.\<close>

datatype 'v looked_up = Missing | Found 'v | InheritedFunction | ArrayPrototype | ArrayLength nat

definition array_get :: "(string \<times> 'v) list \<Rightarrow> string \<Rightarrow> 'v looked_up" where
  "array_get tbl nm =
     (if nm = ''length'' then ArrayLength (array_length (map fst tbl))
      else if nm = ''__proto__'' then ArrayPrototype
      else case map_of tbl nm of
             Some v \<Rightarrow> Found v
           | None \<Rightarrow> if nm \<in> set array_inherited then InheritedFunction else Missing)"

text \<open>A plain name is one an Array does not have by itself.\<close>

definition plain_name :: "string \<Rightarrow> bool" where
  "plain_name nm = (nm \<noteq> ''length'' \<and> nm \<noteq> ''__proto__'' \<and> nm \<notin> set array_inherited)"

subsection \<open>Listener sets and the engine\<close>

text \<open>
  The engine holds its listener sets and, while a pass runs, references to the two
  tables of the active set (\<open>_currentProcessStateListeners\<close>,
  \<open>_currentRuleListeners\<close>): the tables themselves, not copies. A reference names the
  set that owns the table: the default set, or the tagged set at an index of
  \<open>_taggedListeners\<close>, which only ever grows.
\<close>

type_synonym callback = nat

datatype setref = DefaultSet | TaggedSet nat

record rule_listeners =
  pre :: "callback list"
  post :: "callback list"

record listener_set =
  processStateListeners :: "(string \<times> callback list) list"
  ruleListeners :: "(string \<times> rule_listeners) list"

record tagged_listener_set = listener_set +
  tag :: string

datatype event =
    StateListenerCall callback jscontext jsvalue
  | RuleListenerCall callback jscontext rule jsvalue
  | HandlerCall string rule

datatype error =
    TypeError
  | RangeError
  | UnrecognizedRuleKey jsvalue
  | MissingRuleKey
  | UnrecognizedTree

record engine =
  taggedListeners :: "tagged_listener_set list"
  defaultListeners :: listener_set
  currentProcessStateListeners :: "setref option"
  currentRuleListeners :: "setref option"
  scopes :: "scope list option"
  callStack :: "jsvalue list option"
  moduleList :: "jsvalue list option"
  scopeStack :: "scope option list option"
  currentGlobalScope :: "scope option"
  masterGlobalScope :: "scope option"
  currentScope :: "scope option"
  trace :: "event list"

datatype 'a res = Ok 'a engine | Thrown error engine

fun state_of :: "'a res \<Rightarrow> engine" where
  "state_of (Ok v s) = s"
| "state_of (Thrown e s) = s"

fun thrown :: "'a res \<Rightarrow> error option" where
  "thrown (Ok v s) = None"
| "thrown (Thrown e s) = Some e"

text \<open>
  The constructor: only the two listener tables are initialised; every other field is
  \<open>undefined\<close> until \<open>_processProject\<close> assigns it.
\<close>

definition CodeProcessor :: engine where
  "CodeProcessor =
     \<lparr> taggedListeners = [],
       defaultListeners = \<lparr> processStateListeners = [], ruleListeners = [] \<rparr>,
       currentProcessStateListeners = None,
       currentRuleListeners = None,
       scopes = None, callStack = None, moduleList = None, scopeStack = None,
       currentGlobalScope = None, masterGlobalScope = None, currentScope = None,
       trace = [] \<rparr>"

text \<open>Sequencing: an exception ends the rest of the statement list.\<close>

fun and_then :: "'a res \<Rightarrow> ('a \<Rightarrow> engine \<Rightarrow> 'b res) \<Rightarrow> 'b res" where
  "and_then (Ok v s) k = k v s"
| "and_then (Thrown e s) k = Thrown e s"

subsection \<open>Plugin methods\<close>

text \<open>
  \<open>_getTaggedListeners(tag)\<close> returns a reference to a listener set of the engine. A
  tag is a string or \<open>undefined\<close>; the empty string is falsy and selects the default
  set. The search loop has no \<open>break\<close>, so the last set with an equal tag is the one
  returned.
\<close>

fun find_tagged :: "string \<Rightarrow> tagged_listener_set list \<Rightarrow> nat \<Rightarrow> nat option \<Rightarrow> nat option" where
  "find_tagged t [] i found = found"
| "find_tagged t (l # ls) i found =
     find_tagged t ls (Suc i) (if tag l = t then Some i else found)"

fun getTaggedListeners :: "string option \<Rightarrow> engine \<Rightarrow> setref \<times> engine" where
  "getTaggedListeners None s = (DefaultSet, s)"
| "getTaggedListeners (Some t) s =
     (if t = [] then (DefaultSet, s)
      else (case find_tagged t (taggedListeners s) 0 None of
              Some i \<Rightarrow> (TaggedSet i, s)
            | None \<Rightarrow>
                (TaggedSet (length (taggedListeners s)),
                 s\<lparr>taggedListeners := taggedListeners s @
                     [\<lparr> processStateListeners = [], ruleListeners = [], tag = t \<rparr>]\<rparr>)))"

fun get_processStateListeners :: "setref \<Rightarrow> engine \<Rightarrow> (string \<times> callback list) list" where
  "get_processStateListeners DefaultSet s = processStateListeners (defaultListeners s)"
| "get_processStateListeners (TaggedSet i) s = processStateListeners (taggedListeners s ! i)"

fun set_processStateListeners :: "setref \<Rightarrow> (string \<times> callback list) list \<Rightarrow> engine \<Rightarrow> engine" where
  "set_processStateListeners DefaultSet ls s =
     s\<lparr>defaultListeners := (defaultListeners s)\<lparr>processStateListeners := ls\<rparr>\<rparr>"
| "set_processStateListeners (TaggedSet i) ls s =
     s\<lparr>taggedListeners := (taggedListeners s)[i := (taggedListeners s ! i)\<lparr>processStateListeners := ls\<rparr>]\<rparr>"

fun get_ruleListeners :: "setref \<Rightarrow> engine \<Rightarrow> (string \<times> rule_listeners) list" where
  "get_ruleListeners DefaultSet s = ruleListeners (defaultListeners s)"
| "get_ruleListeners (TaggedSet i) s = ruleListeners (taggedListeners s ! i)"

fun set_ruleListeners :: "setref \<Rightarrow> (string \<times> rule_listeners) list \<Rightarrow> engine \<Rightarrow> engine" where
  "set_ruleListeners DefaultSet ls s =
     s\<lparr>defaultListeners := (defaultListeners s)\<lparr>ruleListeners := ls\<rparr>\<rparr>"
| "set_ruleListeners (TaggedSet i) ls s =
     s\<lparr>taggedListeners := (taggedListeners s)[i := (taggedListeners s ! i)\<lparr>ruleListeners := ls\<rparr>]\<rparr>"

text \<open>
  \<open>if (!eventListeners[name]) eventListeners[name] = []; eventListeners[name].push(callback)\<close>.
  \<open>push_state_listener\<close> is what the two statements do to the table when the name is
  missing or holds a list. An inherited function is truthy and has no \<open>push\<close>, and
  neither has the length (which the assignment of \<open>[]\<close> leaves at 0 when it is 0):
  the call throws a TypeError, after \<open>_getTaggedListeners\<close> has run. The prototype
  object is truthy and has \<open>push\<close>: the callback is appended to
  \<open>Array.prototype\<close> itself, which is no part of the engine, and the engine is as
  before. (Every array of the program then inherits an element from the prototype;
  the model does not follow a program that far.)
\<close>

definition push_state_listener ::
  "string \<Rightarrow> callback \<Rightarrow> (string \<times> callback list) list \<Rightarrow> (string \<times> callback list) list" where
  "push_state_listener nm cb ls =
     AList.update nm ((case map_of ls nm of None \<Rightarrow> [] | Some cbs \<Rightarrow> cbs) @ [cb]) ls"

fun addProcessorStateListener :: "string \<Rightarrow> callback \<Rightarrow> string option \<Rightarrow> engine \<Rightarrow> unit res" where
  "addProcessorStateListener nm cb tg s =
     (case getTaggedListeners tg s of
        (r, s1) \<Rightarrow>
          (case array_get (get_processStateListeners r s1) nm of
             Missing \<Rightarrow>
               Ok () (set_processStateListeners r
                        (push_state_listener nm cb (get_processStateListeners r s1)) s1)
           | Found cbs \<Rightarrow>
               Ok () (set_processStateListeners r
                        (push_state_listener nm cb (get_processStateListeners r s1)) s1)
           | InheritedFunction \<Rightarrow> Thrown TypeError s1
           | ArrayPrototype \<Rightarrow> Ok () s1
           | ArrayLength n \<Rightarrow> Thrown TypeError s1))"

text \<open>
  The third argument of \<open>addRuleListener\<close> is absent, a boolean or a tag; the fourth is
  absent or a boolean. \<open>is_Boolean\<close> is \<open>is(tag, "Boolean")\<close>.
\<close>

datatype third_arg = NoArg | Flag bool | TagArg string

fun is_Boolean :: "third_arg \<Rightarrow> bool" where
  "is_Boolean (Flag b) = True"
| "is_Boolean NoArg = False"
| "is_Boolean (TagArg t) = False"

fun flag_truthy :: "third_arg \<Rightarrow> bool" where
  "flag_truthy (Flag b) = b"
| "flag_truthy NoArg = False"
| "flag_truthy (TagArg t) = (t \<noteq> [])"

fun tag_of_arg :: "third_arg \<Rightarrow> string option" where
  "tag_of_arg (TagArg t) = Some t"
| "tag_of_arg NoArg = None"
| "tag_of_arg (Flag b) = None"

text \<open>
  \<open>if (!eventListeners[name]) eventListeners[name] = {pre: [], post: []};
  eventListeners[name][preorder ? "pre" : "post"].push(callback)\<close>.
  \<open>push_rule_listener\<close> is what the two statements do to the table when the name is
  missing or holds a pair of lists. An inherited function and the prototype object are
  truthy and have neither \<open>pre\<close> nor \<open>post\<close>, so \<open>push\<close> is called on
  \<open>undefined\<close>: a TypeError. A length
  of 0 is falsy and the assignment of an object to \<open>length\<close> is a RangeError; any
  other length is a number without \<open>pre\<close> and \<open>post\<close>: a TypeError.
\<close>

definition push_rule_listener ::
  "string \<Rightarrow> callback \<Rightarrow> bool \<Rightarrow> (string \<times> rule_listeners) list \<Rightarrow> (string \<times> rule_listeners) list" where
  "push_rule_listener nm cb preorder ls =
     (let cur = (case map_of ls nm of None \<Rightarrow> \<lparr> pre = [], post = [] \<rparr> | Some l \<Rightarrow> l)
      in AList.update nm
           (if preorder then cur\<lparr>pre := pre cur @ [cb]\<rparr> else cur\<lparr>post := post cur @ [cb]\<rparr>) ls)"

fun addRuleListener :: "string \<Rightarrow> callback \<Rightarrow> third_arg \<Rightarrow> bool option \<Rightarrow> engine \<Rightarrow> unit res" where
  "addRuleListener nm cb tg preorder s =
     (let preorder1 = (if is_Boolean tg then flag_truthy tg else (preorder = Some True));
          tg1 = (if is_Boolean tg then None else tag_of_arg tg)
      in case getTaggedListeners tg1 s of
           (r, s1) \<Rightarrow>
             (case array_get (get_ruleListeners r s1) nm of
                Missing \<Rightarrow>
                  Ok () (set_ruleListeners r
                           (push_rule_listener nm cb preorder1 (get_ruleListeners r s1)) s1)
              | Found l \<Rightarrow>
                  Ok () (set_ruleListeners r
                           (push_rule_listener nm cb preorder1 (get_ruleListeners r s1)) s1)
              | InheritedFunction \<Rightarrow> Thrown TypeError s1
              | ArrayPrototype \<Rightarrow> Thrown TypeError s1
              | ArrayLength n \<Rightarrow> Thrown (if n = 0 then RangeError else TypeError) s1))"

text \<open>\<open>lookupVariable\<close> has an empty body: it returns \<open>undefined\<close>.\<close>

definition lookupVariable :: "string \<Rightarrow> engine \<Rightarrow> jsvalue res" where
  "lookupVariable variableName s = Ok JSUndefined s"

subsection \<open>Firing events\<close>

fun call_state_listeners :: "callback list \<Rightarrow> jsvalue \<Rightarrow> engine \<Rightarrow> unit res" where
  "call_state_listeners [] d s = Ok () s"
| "call_state_listeners (cb # cbs) d s =
     (case currentScope s of
        None \<Rightarrow> Thrown TypeError s
      | Some sc \<Rightarrow>
          call_state_listeners cbs d (s\<lparr>trace := trace s @ [StateListenerCall cb (context_of sc) d]\<rparr>))"

text \<open>
  \<open>_fireProcessStateEvent\<close> is called with four names, all of them plain, so that
  \<open>listeners\<close> is the list stored under the name or \<open>undefined\<close>.
\<close>

datatype state_event = FileProcessingBegin | ContextChange | ParseError | FileLoadError

fun event_name :: "state_event \<Rightarrow> string" where
  "event_name FileProcessingBegin = ''fileProcessingBegin''"
| "event_name ContextChange = ''contextChange''"
| "event_name ParseError = ''parseError''"
| "event_name FileLoadError = ''fileLoadError''"

definition state_listeners :: "(string \<times> callback list) list \<Rightarrow> state_event \<Rightarrow> callback list" where
  "state_listeners L e = (case map_of L (event_name e) of None \<Rightarrow> [] | Some cbs \<Rightarrow> cbs)"

fun fireProcessStateEvent :: "state_event \<Rightarrow> jsvalue \<Rightarrow> engine \<Rightarrow> unit res" where
  "fireProcessStateEvent e d s =
     (case currentProcessStateListeners s of
        None \<Rightarrow> Thrown TypeError s
      | Some r \<Rightarrow>
          call_state_listeners (state_listeners (get_processStateListeners r s) e)
            (if truthy d then d else JSObject []) s)"

fun call_rule_listeners :: "callback list \<Rightarrow> rule \<Rightarrow> jsvalue \<Rightarrow> engine \<Rightarrow> unit res" where
  "call_rule_listeners [] r v s = Ok () s"
| "call_rule_listeners (cb # cbs) r v s =
     (case currentScope s of
        None \<Rightarrow> Thrown TypeError s
      | Some sc \<Rightarrow>
          call_rule_listeners cbs r v (s\<lparr>trace := trace s @ [RuleListenerCall cb (context_of sc) r v]\<rparr>))"

text \<open>
  \<open>listeners = this._currentRuleListeners[key]; listeners = listeners ? listeners[type] : []\<close>,
  followed by \<open>listeners.length\<close>: \<open>None\<close> is the TypeError of reading \<open>length\<close>
  of \<open>undefined\<close>, which is what \<open>listeners[type]\<close> is for an inherited function,
  for the prototype object and for a length other than 0. \<open>phase_listeners\<close> is the list for a plain key.
\<close>

definition lookup_phase :: "(string \<times> rule_listeners) list \<Rightarrow> string \<Rightarrow> bool \<Rightarrow> callback list option" where
  "lookup_phase L key preorder =
     (case array_get L key of
        Missing \<Rightarrow> Some []
      | Found l \<Rightarrow> Some (if preorder then pre l else post l)
      | InheritedFunction \<Rightarrow> None
      | ArrayPrototype \<Rightarrow> None
      | ArrayLength n \<Rightarrow> if n = 0 then Some [] else None)"

definition phase_listeners :: "(string \<times> rule_listeners) list \<Rightarrow> string \<Rightarrow> bool \<Rightarrow> callback list" where
  "phase_listeners L key preorder =
     (case map_of L key of None \<Rightarrow> [] | Some l \<Rightarrow> if preorder then pre l else post l)"

text \<open>
  \<open>_fireRuleEvent\<close> has two loops over one counter: \<open>i\<close> is set to 0 once, the first
  loop leaves it at the number of listeners of the rule's name, and the second loop,
  \<open>for(len = listeners.length; i < len; i++)\<close>, goes on from there. So the
  \<open>allrules\<close> listeners that are called are those from that index on.
\<close>

fun fireRuleEvent :: "rule \<Rightarrow> jsvalue \<Rightarrow> bool \<Rightarrow> engine \<Rightarrow> unit res" where
  "fireRuleEvent r v preorder s =
     (case currentRuleListeners s of
        None \<Rightarrow> Thrown TypeError s
      | Some t \<Rightarrow>
          (case lookup_phase (get_ruleListeners t s)
                  (property_key (get_prop (ruleInfo r) ''name'')) preorder of
             None \<Rightarrow> Thrown TypeError s
           | Some specific \<Rightarrow>
               and_then (call_rule_listeners specific r v s)
                 (\<lambda>u s1. case currentRuleListeners s1 of
                            None \<Rightarrow> Thrown TypeError s1
                          | Some t1 \<Rightarrow>
                              (case lookup_phase (get_ruleListeners t1 s1) ''allrules'' preorder of
                                 None \<Rightarrow> Thrown TypeError s1
                               | Some wildcard \<Rightarrow>
                                   call_rule_listeners (drop (length specific) wildcard) r v s1))))"

subsection \<open>Scopes\<close>

fun createScope :: "string \<Rightarrow> string \<Rightarrow> int \<Rightarrow> int \<Rightarrow> engine \<Rightarrow> scope res" where
  "createScope nm f l c s =
     (let newScope = \<lparr> context_of = \<lparr> ctx_name = nm, ctx_file = f, ctx_line = l, ctx_col = c \<rparr>,
                        symbols = [] \<rparr>
      in case scopes s of
           None \<Rightarrow> Thrown TypeError s
         | Some scs \<Rightarrow> Ok newScope (s\<lparr>scopes := Some (scs @ [newScope])\<rparr>))"

text \<open>
  \<open>_enterScope(scope)\<close>; the argument is \<open>this._currentGlobalScope\<close> at the only call
  site, which may be \<open>undefined\<close>. The top of the stack is the end of the list, as
  \<open>push\<close> and \<open>pop\<close> have it.
\<close>

fun enterScope :: "scope option \<Rightarrow> engine \<Rightarrow> unit res" where
  "enterScope sc s =
     (let oldScope = currentScope s;
          s1 = s\<lparr>currentScope := sc\<rparr>
      in case scopeStack s1 of
           None \<Rightarrow> Thrown TypeError s1
         | Some stk \<Rightarrow>
             fireProcessStateEvent ContextChange
               (JSObject [(''previousContext'',
                  (case oldScope of None \<Rightarrow> JSUndefined | Some old \<Rightarrow> context_value (context_of old)))])
               (s1\<lparr>scopeStack := Some (stk @ [sc])\<rparr>))"

text \<open>
  \<open>_exitScope()\<close>: \<open>pop\<close> on an empty array returns \<open>undefined\<close>, and so does reading
  index \<open>length - 1\<close> of an empty array; \<open>oldScope.context\<close> then throws.
\<close>

fun exitScope :: "engine \<Rightarrow> unit res" where
  "exitScope s =
     (case scopeStack s of
        None \<Rightarrow> Thrown TypeError s
      | Some stk \<Rightarrow>
          (let oldScope = (if stk = [] then None else last stk);
               stk1 = butlast stk;
               s1 = s\<lparr>scopeStack := Some stk1,
                      currentScope := (if stk1 = [] then None else last stk1)\<rparr>
           in case oldScope of
                None \<Rightarrow> Thrown TypeError s1
              | Some old \<Rightarrow>
                  fireProcessStateEvent ContextChange
                    (JSObject [(''previousContext'', context_value (context_of old))]) s1))"

subsection \<open>The rule dispatcher\<close>

text \<open>
  The rule methods the prototype defines, in the order of the source. The key
  \<open>_processRuleUnary-postfix\<close> is assigned twice and \<open>_processRuleUnary-prefix\<close> never.
  Every body is empty, so a call returns \<open>undefined\<close>; calling a name that is not
  defined throws a TypeError.
\<close>

definition rule_processors :: "string list" where
  "rule_processors =
     [''_processRuleAtom'', ''_processRuleNum'', ''_processRuleString'', ''_processRuleName'',
      ''_processRuleArray'', ''_processRuleObject'', ''_processRuleRegexp'',
      ''_processRuleAssign'', ''_processRuleBinary'', ''_processRuleUnary-postfix'',
      ''_processRuleUnary-postfix'', ''_processRuleCall'', ''_processRuleDot'',
      ''_processRuleSub'', ''_processRuleSeq'', ''_processRuleConditional'',
      ''_processRuleFunction'', ''_processRuleNew'',
      ''_processRuleToplevel'', ''_processRuleBlock'', ''_processRuleStat'',
      ''_processRuleLabel'', ''_processRuleIf'', ''_processRuleWith'', ''_processRuleVar'',
      ''_processRuleDefun'', ''_processRuleReturn'', ''_processRuleDebugger'',
      ''_processRuleTry'', ''_processRuleThrow'',
      ''_processRuleBreak'', ''_processRuleContinue'', ''_processRuleWhile'',
      ''_processRuleDo'', ''_processRuleFor'', ''_processRuleFor-in'', ''_processRuleSwitch'']"

fun call_rule_processor :: "string \<Rightarrow> rule \<Rightarrow> engine \<Rightarrow> jsvalue res" where
  "call_rule_processor m r s =
     (if m \<in> set rule_processors
      then Ok JSUndefined (s\<lparr>trace := trace s @ [HandlerCall m r]\<rparr>)
      else Thrown TypeError s)"

text \<open>
  The validation loop \<open>for (var i in keys)\<close> runs \<open>i\<close> over the indices of the array
  of keys and reads \<open>ruleInfo[i]\<close>, the property of \<open>ruleInfo\<close> named by the index.
  It returns the first value that makes the loop throw.
\<close>

fun check_rule_keys :: "(string \<times> jsvalue) list \<Rightarrow> nat list \<Rightarrow> jsvalue option" where
  "check_rule_keys info [] = None"
| "check_rule_keys info (i # js) =
     (let v = get_prop info (index_name i)
      in if truthy v \<and> v \<noteq> JSStr ''name'' \<and> v \<noteq> JSStr ''start'' \<and> v \<noteq> JSStr ''end''
         then Some v
         else check_rule_keys info js)"

fun processRule :: "rule \<Rightarrow> engine \<Rightarrow> unit res" where
  "processRule r s =
     (let info = ruleInfo r;
          keys = map fst info
      in case check_rule_keys info [0..<length keys] of
           Some v \<Rightarrow> Thrown (UnrecognizedRuleKey v) s
         | None \<Rightarrow>
             if truthy (get_prop info ''name'') \<and> truthy (get_prop info ''start'')
                \<and> truthy (get_prop info ''end'')
             then (case get_prop info ''name'' of
                     JSStr n \<Rightarrow>
                       and_then (call_rule_processor (''_processRule'' @ capitalize n) r s)
                         (\<lambda>v1 s1. and_then (fireRuleEvent r v1 True s1)
                            (\<lambda>u s2. and_then (call_rule_processor (''_processRule'' @ capitalize n) r s2)
                               (\<lambda>v2 s3. fireRuleEvent r v2 False s3)))
                   | JSUndefined \<Rightarrow> Thrown TypeError s
                   | JSNull \<Rightarrow> Thrown TypeError s
                   | JSBool b \<Rightarrow> Thrown TypeError s
                   | JSNum k \<Rightarrow> Thrown TypeError s
                   | JSObject ps \<Rightarrow> Thrown TypeError s)
             else Thrown MissingRuleKey s)"

fun processRules :: "rule list \<Rightarrow> engine \<Rightarrow> unit res" where
  "processRules [] s = Ok () s"
| "processRules (r # rs) s = and_then (processRule r s) (\<lambda>u s1. processRules rs s1)"

subsection \<open>Files and passes\<close>

text \<open>
  The file system and the parser are the environment: \<open>existsSync\<close> is
  \<open>path.existsSync\<close>, and \<open>parse_file\<close> is
  \<open>uglify.parser.parse(fs.readFileSync(file).toString(), false, true)\<close>, which throws
  an exception with a message, a line and a column, or returns a tree. \<open>Root t stmts\<close>
  is the two-element array \<open>[t, stmts]\<close>; \<open>OtherRoot\<close> is any other value. The
  environment does not change while a project is processed (the directories
  \<open>_processProject\<close> creates under \<open>build\<close> are not read back).
\<close>

datatype parse_failure = ParseFailure jsvalue jsvalue jsvalue

datatype ast_root = Root string "rule list" | OtherRoot

record environment =
  existsSync :: "string \<Rightarrow> bool"
  parse_file :: "string \<Rightarrow> parse_failure + ast_root"

fun processFile :: "environment \<Rightarrow> string \<Rightarrow> bool \<Rightarrow> engine \<Rightarrow> unit res" where
  "processFile env f createContext s =
     (if existsSync env f
      then
        and_then (fireProcessStateEvent FileProcessingBegin (JSObject [(''file'', JSStr f)]) s)
          (\<lambda>u s1.
             and_then
               (if createContext
                then and_then (createScope (''@scopedglobal-'' @ f) f 0 0 s1)
                       (\<lambda>g s2. Ok () (s2\<lparr>currentGlobalScope := Some g\<rparr>))
                else Ok () s1)
               (\<lambda>u s2.
                  and_then (enterScope (currentGlobalScope s2) s2)
                    (\<lambda>u s3.
                       case parse_file env f of
                         Inl (ParseFailure m l c) \<Rightarrow>
                           fireProcessStateEvent ParseError
                             (JSObject [(''message'', m), (''file'', JSStr f),
                                        (''line'', l), (''col'', c)]) s3
                       | Inr OtherRoot \<Rightarrow> Thrown UnrecognizedTree s3
                       | Inr (Root t stmts) \<Rightarrow>
                           if t = ''toplevel'' then processRules stmts s3
                           else Thrown UnrecognizedTree s3)))
      else
        fireProcessStateEvent FileLoadError
          (JSObject [(''file'', JSStr f), (''error'', JSStr ''File Not Found'')]) s)"

text \<open>
  \<open>processProjectHelper\<close>, the function every pass runs. Its first five assignments
  (under the comment "Initialize the processing data") are \<open>initProcessingData\<close>.
\<close>

fun initProcessingData :: "string \<Rightarrow> engine \<Rightarrow> unit res" where
  "initProcessingData entryPoint s =
     and_then
       (createScope ''@global'' entryPoint 0 0
          (s\<lparr>scopes := Some [], callStack := Some [], moduleList := Some [],
             scopeStack := Some []\<rparr>))
       (\<lambda>g s1. Ok () (s1\<lparr>currentGlobalScope := Some g, masterGlobalScope := Some g\<rparr>))"

fun processProjectHelper :: "environment \<Rightarrow> string \<Rightarrow> engine \<Rightarrow> unit res" where
  "processProjectHelper env entryPoint s =
     and_then (initProcessingData entryPoint s)
       (\<lambda>u s1. processFile env entryPoint False s1)"

text \<open>
  \<open>this._currentProcessStateListeners = set.processStateListeners;
  this._currentRuleListeners = set.ruleListeners\<close>: the two tables of a set become the
  active ones.
\<close>

definition activate :: "setref \<Rightarrow> engine \<Rightarrow> engine" where
  "activate t s = s\<lparr>currentProcessStateListeners := Some t, currentRuleListeners := Some t\<rparr>"

text \<open>
  The loop over the tagged sets runs over the indices below the length that
  \<open>_taggedListeners\<close> has when \<open>_processProject\<close> starts.
\<close>

fun processTagged :: "environment \<Rightarrow> string \<Rightarrow> nat list \<Rightarrow> engine \<Rightarrow> unit res" where
  "processTagged env entryPoint [] s = Ok () s"
| "processTagged env entryPoint (i # js) s =
     and_then (processProjectHelper env entryPoint (activate (TaggedSet i) s))
       (\<lambda>u s1. processTagged env entryPoint js s1)"

fun processProject :: "environment \<Rightarrow> string \<Rightarrow> engine \<Rightarrow> unit res" where
  "processProject env entryPoint s =
     and_then (processTagged env entryPoint [0..<length (taggedListeners s)] s)
       (\<lambda>u s1. processProjectHelper env entryPoint (activate DefaultSet s1))"

subsection \<open>The events of a rule\<close>

text \<open>
  The listeners one firing calls, for a plain key: those of the rule's name, and the
  \<open>allrules\<close> listeners from the index on that the first loop stopped at
  (\<open>fireRuleEvent_trace\<close> below). And what \<open>_processRule\<close> adds to the trace for a
  rule, given the active rule listeners and the current context: the call of the rule
  method, the listeners the pre-order firing calls, the second call of the rule method,
  and the listeners the post-order firing calls (\<open>processRule_trace\<close> below).
\<close>

definition fired_listeners :: "(string \<times> rule_listeners) list \<Rightarrow> string \<Rightarrow> bool \<Rightarrow> callback list" where
  "fired_listeners L key preorder =
     phase_listeners L key preorder
     @ drop (length (phase_listeners L key preorder)) (phase_listeners L ''allrules'' preorder)"

definition rule_events :: "(string \<times> rule_listeners) list \<Rightarrow> jscontext \<Rightarrow> rule \<Rightarrow> event list" where
  "rule_events L c r =
     (let m = ''_processRule'' @ capitalize (property_key (get_prop (ruleInfo r) ''name''));
          key = property_key (get_prop (ruleInfo r) ''name'')
      in [HandlerCall m r]
         @ map (\<lambda>cb. RuleListenerCall cb c r JSUndefined) (fired_listeners L key True)
         @ [HandlerCall m r]
         @ map (\<lambda>cb. RuleListenerCall cb c r JSUndefined) (fired_listeners L key False))"

subsection \<open>JSValues and declarations\<close>

text \<open>
  A JSValue (see the JSValue documentation at the head of the source) is an object with
  the properties \<open>type\<close>, \<open>value\<close> and \<open>name\<close>; a JSValue whose \<open>type\<close> is
  \<open>undefined\<close> marks a value that is not known. \<open>undefined\<close> itself is not a
  JSValue. A scope declares a name when its symbol table has an entry for it;
  \<open>all_scopes\<close> lists the scopes the engine holds: the history, the stack and the
  current scope.
\<close>

fun is_JSValue :: "jsvalue \<Rightarrow> bool" where
  "is_JSValue (JSObject ps) = True"
| "is_JSValue JSUndefined = False"
| "is_JSValue JSNull = False"
| "is_JSValue (JSBool b) = False"
| "is_JSValue (JSNum n) = False"
| "is_JSValue (JSStr s) = False"

definition all_scopes :: "engine \<Rightarrow> scope list" where
  "all_scopes s =
     (case scopes s of None \<Rightarrow> [] | Some h \<Rightarrow> h)
     @ (case scopeStack s of None \<Rightarrow> [] | Some stk \<Rightarrow> concat (map (\<lambda>x. case x of None \<Rightarrow> [] | Some sc \<Rightarrow> [sc]) stk))
     @ (case currentScope s of None \<Rightarrow> [] | Some sc \<Rightarrow> [sc])"

definition declaring_scopes :: "string \<Rightarrow> engine \<Rightarrow> scope list" where
  "declaring_scopes nm s = filter (\<lambda>sc. map_of (symbols sc) nm \<noteq> None) (all_scopes s)"
subsection \<open>Example projects\<close>

text \<open>
  The source \<open>debugger;\<close> parses to one statement without children. The engines
  are built with the plugin methods from a new \<open>CodeProcessor\<close>:
  \<open>listening_engine\<close> has the rule listeners 1 (pre-order) and 2, 3 (post-order) for
  \<open>debugger\<close> and the wildcard post-order listener 4. Two of its states are written
  out: \<open>entering_engine\<close> is \<open>listening_engine\<close> as \<open>_processFile\<close> finds it in
  the default pass, and \<open>walking_engine\<close> is the same engine once the file's scope is
  entered, when the statements are dispatched (\<open>entering_engine_reached\<close> and
  \<open>walking_engine_reached\<close> below). \<open>loaded_engine\<close> is an engine with a
  \<open>fileLoadError\<close> listener after its pass over \<open>app.js\<close>.
\<close>

definition pos :: jsvalue where
  "pos = JSObject [(''line'', JSNum 1), (''col'', JSNum 0)]"

definition debugger_rule :: rule where
  "debugger_rule = Rule [(''name'', JSStr ''debugger''), (''start'', pos), (''end'', pos)] []"

definition no_end_rule :: rule where
  "no_end_rule = Rule [(''name'', JSStr ''debugger''), (''start'', pos)] []"

definition global_context :: jscontext where
  "global_context =
     \<lparr> ctx_name = ''@global'', ctx_file = ''Resources/app.js'', ctx_line = 0, ctx_col = 0 \<rparr>"

definition global_scope :: scope where
  "global_scope = \<lparr> context_of = global_context, symbols = [] \<rparr>"

definition debugger_listeners :: "(string \<times> rule_listeners) list" where
  "debugger_listeners =
     [(''debugger'', \<lparr> pre = [1], post = [2, 3] \<rparr>), (''allrules'', \<lparr> pre = [], post = [4] \<rparr>)]"

definition listening_engine :: engine where
  "listening_engine =
     state_of (addRuleListener ''allrules'' 4 NoArg None
       (state_of (addRuleListener ''debugger'' 3 NoArg (Some False)
          (state_of (addRuleListener ''debugger'' 2 NoArg None
             (state_of (addRuleListener ''debugger'' 1 (Flag True) None CodeProcessor)))))))"

definition walking_engine :: engine where
  "walking_engine =
     \<lparr> taggedListeners = [],
       defaultListeners = \<lparr> processStateListeners = [], ruleListeners = debugger_listeners \<rparr>,
       currentProcessStateListeners = Some DefaultSet,
       currentRuleListeners = Some DefaultSet,
       scopes = Some [global_scope], callStack = Some [], moduleList = Some [],
       scopeStack = Some [Some global_scope],
       currentGlobalScope = Some global_scope, masterGlobalScope = Some global_scope,
       currentScope = Some global_scope,
       trace = [] \<rparr>"

definition extra_key_rule :: rule where
  "extra_key_rule =
     Rule [(''name'', JSStr ''debugger''), (''start'', pos), (''end'', pos), (''extra'', JSNum 1)] []"

definition project_env :: "rule list \<Rightarrow> environment" where
  "project_env stmts =
     \<lparr> existsSync = (\<lambda>f. f = ''Resources/app.js''),
       parse_file = (\<lambda>f. Inr (Root ''toplevel'' stmts)) \<rparr>"

definition broken_env :: environment where
  "broken_env =
     \<lparr> existsSync = (\<lambda>f. f = ''Resources/app.js''),
       parse_file = (\<lambda>f. Inl (ParseFailure (JSStr ''Unexpected token'') (JSNum 1) (JSNum 4))) \<rparr>"

definition missing_env :: environment where
  "missing_env =
     \<lparr> existsSync = (\<lambda>f. False),
       parse_file = (\<lambda>f. Inr (Root ''toplevel'' [])) \<rparr>"

definition two_pass_engine :: engine where
  "two_pass_engine =
     state_of (addProcessorStateListener ''contextChange'' 7 None
       (state_of (addProcessorStateListener ''contextChange'' 6 (Some ''A'') CodeProcessor)))"

definition begin_listener_engine :: engine where
  "begin_listener_engine =
     state_of (addProcessorStateListener ''fileProcessingBegin'' 8 None CodeProcessor)"

definition tagged_begin_engine :: engine where
  "tagged_begin_engine =
     state_of (addProcessorStateListener ''fileProcessingBegin'' 8 None
       (state_of (addRuleListener ''debugger'' 1 (TagArg ''A'') None CodeProcessor)))"

definition parse_error_engine :: engine where
  "parse_error_engine =
     state_of (addProcessorStateListener ''parseError'' 9 None
       (state_of (addRuleListener ''allrules'' 4 NoArg None CodeProcessor)))"

definition load_error_engine :: engine where
  "load_error_engine =
     state_of (addProcessorStateListener ''fileLoadError'' 5 None CodeProcessor)"

definition loaded_engine :: engine where
  "loaded_engine =
     state_of (processProject (project_env []) ''Resources/app.js'' load_error_engine)"

definition entering_engine :: engine where
  "entering_engine = walking_engine\<lparr>scopeStack := Some [], currentScope := None\<rparr>"

section \<open>Properties\<close>

lemmas eval_defs = CodeProcessor_def push_rule_listener_def push_state_listener_def activate_def
     get_prop_def index_name.simps digit_char_def phase_listeners_def lookup_phase_def
     state_listeners_def array_get_def array_inherited_def rule_processors_def
     toUpperCase_char_def context_value_def Let_def debugger_rule_def pos_def global_context_def
     global_scope_def project_env_def

subsection \<open>The example engines\<close>

text \<open>
  The two engine states written out above are states of \<open>listening_engine\<close>: the
  first is what the initialisation of its default pass returns, the second is what
  the pass over an empty file ends in.
\<close>

lemma listening_engine_listeners:
  "ruleListeners (defaultListeners listening_engine) = debugger_listeners \<and>
   processStateListeners (defaultListeners listening_engine) = [] \<and>
   taggedListeners listening_engine = []"
  by (simp add: listening_engine_def debugger_listeners_def eval_defs)

lemma entering_engine_reached:
  "initProcessingData ''Resources/app.js'' (activate DefaultSet listening_engine)
     = Ok () entering_engine"
  by (simp add: listening_engine_def entering_engine_def walking_engine_def debugger_listeners_def
                eval_defs)

lemma walking_engine_reached:
  "processProject (project_env []) ''Resources/app.js'' listening_engine = Ok () walking_engine"
  by (simp add: listening_engine_def walking_engine_def debugger_listeners_def eval_defs)

subsection \<open>Tables\<close>

text \<open>
  For a plain name a table is read like a dictionary. The names of the state events,
  \<open>allrules\<close> and every name that has a rule method are plain.
\<close>

lemma array_get_plain:
  "plain_name nm \<Longrightarrow>
   array_get tbl nm = (case map_of tbl nm of None \<Rightarrow> Missing | Some v \<Rightarrow> Found v)"
  by (simp add: array_get_def plain_name_def split: option.splits)

lemma lookup_phase_plain:
  "plain_name key \<Longrightarrow> lookup_phase L key p = Some (phase_listeners L key p)"
  by (simp add: lookup_phase_def phase_listeners_def array_get_plain split: option.splits)

lemma plain_allrules: "plain_name ''allrules''"
  by (simp add: plain_name_def array_inherited_def)

lemma plain_event_name: "plain_name (event_name e)"
  by (cases e) (simp_all add: plain_name_def array_inherited_def)

lemma inherited_names_have_no_rule_method:
  "list_all (\<lambda>n. ''_processRule'' @ capitalize n \<notin> set rule_processors)
     (''length'' # ''__proto__'' # array_inherited)"
  by code_simp

lemma rule_method_plain:
  assumes "''_processRule'' @ capitalize n \<in> set rule_processors"
  shows "plain_name n"
proof (rule ccontr)
  assume "\<not> plain_name n"
  then have "n \<in> set (''length'' # ''__proto__'' # array_inherited)"
    by (auto simp: plain_name_def)
  with inherited_names_have_no_rule_method
  have "''_processRule'' @ capitalize n \<notin> set rule_processors"
    unfolding list_all_iff by blast
  with assms show False by simp
qed

lemma get_ruleListeners_frame [simp]:
  "get_ruleListeners t (s\<lparr>trace := x\<rparr>) = get_ruleListeners t s"
  by (cases t) simp_all

lemma get_processStateListeners_frame [simp]:
  "get_processStateListeners t (s\<lparr>trace := x\<rparr>) = get_processStateListeners t s"
  by (cases t) simp_all

lemma get_ruleListeners_same_sets:
  "taggedListeners s' = taggedListeners s \<Longrightarrow> defaultListeners s' = defaultListeners s \<Longrightarrow>
   get_ruleListeners t s' = get_ruleListeners t s"
  by (cases t) simp_all

lemma get_processStateListeners_same_sets:
  "taggedListeners s' = taggedListeners s \<Longrightarrow> defaultListeners s' = defaultListeners s \<Longrightarrow>
   get_processStateListeners t s' = get_processStateListeners t s"
  by (cases t) simp_all



lemma phase_listeners_push_other_name:
  "nm' \<noteq> nm \<Longrightarrow>
   phase_listeners (push_rule_listener nm cb p L) nm' q = phase_listeners L nm' q"
  by (auto simp: phase_listeners_def push_rule_listener_def update_conv' Let_def
           split: option.splits)

subsection \<open>Sequencing and frames\<close>

text \<open>
  Firing events and dispatching rules change nothing of the engine but its trace.
\<close>

lemma and_then_OkE:
  assumes "and_then m k = Ok u s'"
  obtains v s1 where "m = Ok v s1" and "k v s1 = Ok u s'"
  using assms by (cases m) simp_all

lemma call_state_listeners_frame:
  "call_state_listeners cbs d s = Ok u s' \<Longrightarrow> \<exists>t. s' = s\<lparr>trace := t\<rparr>"
proof (induction cbs arbitrary: s)
  case Nil
  then have "s' = s\<lparr>trace := trace s\<rparr>" by simp
  then show ?case by blast
next
  case (Cons cb cbs)
  from Cons.prems obtain sc where sc: "currentScope s = Some sc"
    by (cases "currentScope s") simp_all
  with Cons.prems have "call_state_listeners cbs d
      (s\<lparr>trace := trace s @ [StateListenerCall cb (context_of sc) d]\<rparr>) = Ok u s'" by simp
  from Cons.IH [OF this] obtain t where
    "s' = (s\<lparr>trace := trace s @ [StateListenerCall cb (context_of sc) d]\<rparr>)\<lparr>trace := t\<rparr>" by blast
  then have "s' = s\<lparr>trace := t\<rparr>" by simp
  then show ?case by blast
qed

lemma fireProcessStateEvent_frame:
  "fireProcessStateEvent nm d s = Ok u s' \<Longrightarrow> \<exists>t. s' = s\<lparr>trace := t\<rparr>"
  by (cases "currentProcessStateListeners s") (auto dest: call_state_listeners_frame)

lemma call_rule_listeners_frame:
  "call_rule_listeners cbs r v s = Ok u s' \<Longrightarrow> \<exists>t. s' = s\<lparr>trace := t\<rparr>"
proof (induction cbs arbitrary: s)
  case Nil
  then have "s' = s\<lparr>trace := trace s\<rparr>" by simp
  then show ?case by blast
next
  case (Cons cb cbs)
  from Cons.prems obtain sc where sc: "currentScope s = Some sc"
    by (cases "currentScope s") simp_all
  with Cons.prems have "call_rule_listeners cbs r v
      (s\<lparr>trace := trace s @ [RuleListenerCall cb (context_of sc) r v]\<rparr>) = Ok u s'" by simp
  from Cons.IH [OF this] obtain t where
    "s' = (s\<lparr>trace := trace s @ [RuleListenerCall cb (context_of sc) r v]\<rparr>)\<lparr>trace := t\<rparr>" by blast
  then have "s' = s\<lparr>trace := t\<rparr>" by simp
  then show ?case by blast
qed

lemma fireRuleEvent_frame:
  assumes "fireRuleEvent r v p s = Ok u s'"
  shows "\<exists>t. s' = s\<lparr>trace := t\<rparr>"
proof -
  from assms obtain t0 where t0: "currentRuleListeners s = Some t0"
    by (cases "currentRuleListeners s") simp_all
  with assms obtain specific where
    sp: "lookup_phase (get_ruleListeners t0 s) (property_key (get_prop (ruleInfo r) ''name'')) p
           = Some specific"
    by (cases "lookup_phase (get_ruleListeners t0 s)
                 (property_key (get_prop (ruleInfo r) ''name'')) p") simp_all
  with assms t0 obtain s1 where
    1: "call_rule_listeners specific r v s = Ok () s1"
    and 2: "(case currentRuleListeners s1 of
               None \<Rightarrow> Thrown TypeError s1
             | Some t1 \<Rightarrow>
                 (case lookup_phase (get_ruleListeners t1 s1) ''allrules'' p of
                    None \<Rightarrow> Thrown TypeError s1
                  | Some wildcard \<Rightarrow>
                      call_rule_listeners (drop (length specific) wildcard) r v s1)) = Ok u s'"
    by (auto elim!: and_then_OkE)
  from 2 obtain cbs where 3: "call_rule_listeners cbs r v s1 = Ok u s'"
    by (auto split: option.splits)
  from call_rule_listeners_frame [OF 1] call_rule_listeners_frame [OF 3]
  obtain x1 x2 where "s1 = s\<lparr>trace := x1\<rparr>" and "s' = s1\<lparr>trace := x2\<rparr>" by blast
  then have "s' = s\<lparr>trace := x2\<rparr>" by simp
  then show ?thesis by blast
qed

lemma call_rule_processor_frame:
  "call_rule_processor m r s = Ok v s' \<Longrightarrow> \<exists>t. s' = s\<lparr>trace := t\<rparr>"
  by (auto split: if_splits)

lemma processRule_steps:
  assumes "processRule r s = Ok u s'"
  shows "\<exists>n v1 s1 s2 v2 s3.
           call_rule_processor (''_processRule'' @ capitalize n) r s = Ok v1 s1 \<and>
           fireRuleEvent r v1 True s1 = Ok () s2 \<and>
           call_rule_processor (''_processRule'' @ capitalize n) r s2 = Ok v2 s3 \<and>
           fireRuleEvent r v2 False s3 = Ok u s'"
proof -
  from assms obtain n where n: "get_prop (ruleInfo r) ''name'' = JSStr n"
    by (auto simp: Let_def split: option.splits if_splits jsvalue.splits)
  from assms n have
    "and_then (call_rule_processor (''_processRule'' @ capitalize n) r s)
       (\<lambda>v1 s1. and_then (fireRuleEvent r v1 True s1)
          (\<lambda>u s2. and_then (call_rule_processor (''_processRule'' @ capitalize n) r s2)
             (\<lambda>v2 s3. fireRuleEvent r v2 False s3))) = Ok u s'"
    by (simp add: Let_def del: call_rule_processor.simps fireRuleEvent.simps
          split: option.splits if_splits)
  then obtain v1 s1 where a: "call_rule_processor (''_processRule'' @ capitalize n) r s = Ok v1 s1"
    and r1: "and_then (fireRuleEvent r v1 True s1)
          (\<lambda>u s2. and_then (call_rule_processor (''_processRule'' @ capitalize n) r s2)
             (\<lambda>v2 s3. fireRuleEvent r v2 False s3)) = Ok u s'"
    by (rule and_then_OkE)
  from r1 obtain u2 s2 where b: "fireRuleEvent r v1 True s1 = Ok u2 s2"
    and r2: "and_then (call_rule_processor (''_processRule'' @ capitalize n) r s2)
             (\<lambda>v2 s3. fireRuleEvent r v2 False s3) = Ok u s'"
    by (rule and_then_OkE)
  from r2 obtain v2 s3 where c: "call_rule_processor (''_processRule'' @ capitalize n) r s2 = Ok v2 s3"
    and d: "fireRuleEvent r v2 False s3 = Ok u s'"
    by (rule and_then_OkE)
  have "u2 = ()" by simp
  with a b c d show ?thesis by blast
qed

lemma processRule_frame:
  assumes "processRule r s = Ok u s'"
  shows "\<exists>t. s' = s\<lparr>trace := t\<rparr>"
proof -
  from processRule_steps [OF assms] obtain n v1 s1 s2 v2 s3 where
    a: "call_rule_processor (''_processRule'' @ capitalize n) r s = Ok v1 s1"
    and b: "fireRuleEvent r v1 True s1 = Ok () s2"
    and c: "call_rule_processor (''_processRule'' @ capitalize n) r s2 = Ok v2 s3"
    and d: "fireRuleEvent r v2 False s3 = Ok u s'"
    by blast
  from call_rule_processor_frame [OF a] fireRuleEvent_frame [OF b]
       call_rule_processor_frame [OF c] fireRuleEvent_frame [OF d]
  obtain t1 t2 t3 t4 where "s1 = s\<lparr>trace := t1\<rparr>" "s2 = s1\<lparr>trace := t2\<rparr>"
    "s3 = s2\<lparr>trace := t3\<rparr>" "s' = s3\<lparr>trace := t4\<rparr>" by blast
  then have "s' = s\<lparr>trace := t4\<rparr>" by simp
  then show ?thesis by blast
qed

lemma processRules_frame:
  "processRules rs s = Ok u s' \<Longrightarrow> \<exists>t. s' = s\<lparr>trace := t\<rparr>"
proof (induction rs arbitrary: s)
  case Nil
  then have "s' = s\<lparr>trace := trace s\<rparr>" by simp
  then show ?case by blast
next
  case (Cons r rs)
  from Cons.prems obtain s1 where 1: "processRule r s = Ok () s1" and 2: "processRules rs s1 = Ok u s'"
    by (auto simp del: processRule.simps elim!: and_then_OkE)
  from processRule_frame [OF 1] Cons.IH [OF 2]
  obtain t1 t2 where "s1 = s\<lparr>trace := t1\<rparr>" "s' = s1\<lparr>trace := t2\<rparr>" by blast
  then have "s' = s\<lparr>trace := t2\<rparr>" by simp
  then show ?case by blast
qed

lemma createScope_Ok:
  "createScope nm f l c s = Ok g s' \<Longrightarrow>
   \<exists>h. scopes s = Some h \<and> s' = s\<lparr>scopes := Some (h @ [g])\<rparr> \<and>
     g = \<lparr> context_of = \<lparr> ctx_name = nm, ctx_file = f, ctx_line = l, ctx_col = c \<rparr>, symbols = [] \<rparr>"
  by (cases "scopes s") (auto simp: Let_def)

lemma enterScope_Ok:
  assumes "enterScope sc s = Ok u s'"
  shows "\<exists>stk t. scopeStack s = Some stk \<and>
     s' = s\<lparr>currentScope := sc, scopeStack := Some (stk @ [sc]), trace := t\<rparr>"
proof -
  from assms obtain stk where stk: "scopeStack s = Some stk"
    by (cases "scopeStack s") (simp_all add: Let_def)
  with assms have "\<exists>d. fireProcessStateEvent ContextChange d
       (s\<lparr>currentScope := sc, scopeStack := Some (stk @ [sc])\<rparr>) = Ok u s'"
    by (auto simp: Let_def simp del: fireProcessStateEvent.simps)
  then obtain t where "s' = (s\<lparr>currentScope := sc, scopeStack := Some (stk @ [sc])\<rparr>)\<lparr>trace := t\<rparr>"
    by (blast dest: fireProcessStateEvent_frame)
  with stk show ?thesis by auto
qed

lemma after_parse_frame:
  assumes "(case parse_file env f of
              Inl (ParseFailure m l c) \<Rightarrow>
                fireProcessStateEvent ParseError
                  (JSObject [(''message'', m), (''file'', JSStr f), (''line'', l), (''col'', c)]) s
            | Inr OtherRoot \<Rightarrow> Thrown UnrecognizedTree s
            | Inr (Root t stmts) \<Rightarrow>
                if t = ''toplevel'' then processRules stmts s else Thrown UnrecognizedTree s) = Ok u s'"
  shows "\<exists>t. s' = s\<lparr>trace := t\<rparr>"
  using assms
  by (auto simp del: fireProcessStateEvent.simps processRules.simps
        split: sum.splits parse_failure.splits ast_root.splits if_splits
        dest: fireProcessStateEvent_frame processRules_frame)

lemma processFile_steps:
  assumes ex: "existsSync env f"
    and ok: "processFile env f createContext s = Ok u s'"
  shows "\<exists>s1 s2 s3.
      fireProcessStateEvent FileProcessingBegin (JSObject [(''file'', JSStr f)]) s = Ok () s1 \<and>
      (if createContext
       then and_then (createScope (''@scopedglobal-'' @ f) f 0 0 s1)
              (\<lambda>g s2. Ok () (s2\<lparr>currentGlobalScope := Some g\<rparr>))
       else Ok () s1) = Ok () s2 \<and>
      enterScope (currentGlobalScope s2) s2 = Ok () s3 \<and>
      (case parse_file env f of
              Inl (ParseFailure m l c) \<Rightarrow>
                fireProcessStateEvent ParseError
                  (JSObject [(''message'', m), (''file'', JSStr f), (''line'', l), (''col'', c)]) s3
            | Inr OtherRoot \<Rightarrow> Thrown UnrecognizedTree s3
            | Inr (Root t stmts) \<Rightarrow>
                if t = ''toplevel'' then processRules stmts s3 else Thrown UnrecognizedTree s3) = Ok u s'"
proof -
  from ok ex have
   "and_then (fireProcessStateEvent FileProcessingBegin (JSObject [(''file'', JSStr f)]) s)
          (\<lambda>u s1.
             and_then
               (if createContext
                then and_then (createScope (''@scopedglobal-'' @ f) f 0 0 s1)
                       (\<lambda>g s2. Ok () (s2\<lparr>currentGlobalScope := Some g\<rparr>))
                else Ok () s1)
               (\<lambda>u s2.
                  and_then (enterScope (currentGlobalScope s2) s2)
                    (\<lambda>u s3.
                       case parse_file env f of
                         Inl (ParseFailure m l c) \<Rightarrow>
                           fireProcessStateEvent ParseError
                             (JSObject [(''message'', m), (''file'', JSStr f),
                                        (''line'', l), (''col'', c)]) s3
                       | Inr OtherRoot \<Rightarrow> Thrown UnrecognizedTree s3
                       | Inr (Root t stmts) \<Rightarrow>
                           if t = ''toplevel'' then processRules stmts s3
                           else Thrown UnrecognizedTree s3))) = Ok u s'"
    by simp
  then obtain u1 s1 where
    1: "fireProcessStateEvent FileProcessingBegin (JSObject [(''file'', JSStr f)]) s = Ok u1 s1"
    and r1: "and_then
               (if createContext
                then and_then (createScope (''@scopedglobal-'' @ f) f 0 0 s1)
                       (\<lambda>g s2. Ok () (s2\<lparr>currentGlobalScope := Some g\<rparr>))
                else Ok () s1)
               (\<lambda>u s2.
                  and_then (enterScope (currentGlobalScope s2) s2)
                    (\<lambda>u s3.
                       case parse_file env f of
                         Inl (ParseFailure m l c) \<Rightarrow>
                           fireProcessStateEvent ParseError
                             (JSObject [(''message'', m), (''file'', JSStr f),
                                        (''line'', l), (''col'', c)]) s3
                       | Inr OtherRoot \<Rightarrow> Thrown UnrecognizedTree s3
                       | Inr (Root t stmts) \<Rightarrow>
                           if t = ''toplevel'' then processRules stmts s3
                           else Thrown UnrecognizedTree s3)) = Ok u s'"
    by (rule and_then_OkE)
  from r1 obtain u2 s2 where
    2: "(if createContext
                then and_then (createScope (''@scopedglobal-'' @ f) f 0 0 s1)
                       (\<lambda>g s2. Ok () (s2\<lparr>currentGlobalScope := Some g\<rparr>))
                else Ok () s1) = Ok u2 s2"
    and r2: "and_then (enterScope (currentGlobalScope s2) s2)
                    (\<lambda>u s3.
                       case parse_file env f of
                         Inl (ParseFailure m l c) \<Rightarrow>
                           fireProcessStateEvent ParseError
                             (JSObject [(''message'', m), (''file'', JSStr f),
                                        (''line'', l), (''col'', c)]) s3
                       | Inr OtherRoot \<Rightarrow> Thrown UnrecognizedTree s3
                       | Inr (Root t stmts) \<Rightarrow>
                           if t = ''toplevel'' then processRules stmts s3
                           else Thrown UnrecognizedTree s3) = Ok u s'"
    by (rule and_then_OkE)
  from r2 obtain u3 s3 where
    3: "enterScope (currentGlobalScope s2) s2 = Ok u3 s3"
    and 4: "(case parse_file env f of
                         Inl (ParseFailure m l c) \<Rightarrow>
                           fireProcessStateEvent ParseError
                             (JSObject [(''message'', m), (''file'', JSStr f),
                                        (''line'', l), (''col'', c)]) s3
                       | Inr OtherRoot \<Rightarrow> Thrown UnrecognizedTree s3
                       | Inr (Root t stmts) \<Rightarrow>
                           if t = ''toplevel'' then processRules stmts s3
                           else Thrown UnrecognizedTree s3) = Ok u s'"
    by (rule and_then_OkE)
  have "u1 = ()" "u2 = ()" "u3 = ()" by simp_all
  with 1 2 3 4 show ?thesis by blast
qed

subsection \<open>Rule events\<close>

lemma call_rule_listeners_trace:
  "currentScope s = Some sc \<Longrightarrow>
   call_rule_listeners cbs r v s =
     Ok () (s\<lparr>trace := trace s @ map (\<lambda>cb. RuleListenerCall cb (context_of sc) r v) cbs\<rparr>)"
  by (induction cbs arbitrary: s) simp_all

lemma call_state_listeners_trace:
  "currentScope s = Some sc \<Longrightarrow>
   call_state_listeners cbs d s =
     Ok () (s\<lparr>trace := trace s @ map (\<lambda>cb. StateListenerCall cb (context_of sc) d) cbs\<rparr>)"
  by (induction cbs arbitrary: s) simp_all

text \<open>
  One firing, for a plain rule name: the listeners of the name, then the \<open>allrules\<close>
  listeners that the shared counter has not passed.
\<close>

lemma fireRuleEvent_trace:
  assumes "currentRuleListeners s = Some t" and "currentScope s = Some sc"
    and "plain_name (property_key (get_prop (ruleInfo r) ''name''))"
  shows "fireRuleEvent r v preorder s =
           Ok () (s\<lparr>trace := trace s
              @ map (\<lambda>cb. RuleListenerCall cb (context_of sc) r v)
                  (fired_listeners (get_ruleListeners t s)
                     (property_key (get_prop (ruleInfo r) ''name'')) preorder)\<rparr>)"
  using assms
  by (simp add: call_rule_listeners_trace lookup_phase_plain plain_allrules fired_listeners_def)

lemma processRule_trace:
  assumes L: "currentRuleListeners s = Some t" and sc: "currentScope s = Some sc"
    and ok: "processRule r s = Ok u s'"
  shows "s' = s\<lparr>trace := trace s @ rule_events (get_ruleListeners t s) (context_of sc) r\<rparr>"
proof -
  from ok obtain n where n: "get_prop (ruleInfo r) ''name'' = JSStr n"
    by (auto simp: Let_def split: option.splits if_splits jsvalue.splits)
  from ok n have m: "''_processRule'' @ capitalize n \<in> set rule_processors"
    by (auto simp: Let_def split: option.splits if_splits)
  from rule_method_plain [OF m] n
  have plain: "plain_name (property_key (get_prop (ruleInfo r) ''name''))" by simp
  let ?m = "''_processRule'' @ capitalize n"
  let ?L = "get_ruleListeners t s"
  let ?s1 = "s\<lparr>trace := trace s @ [HandlerCall ?m r]\<rparr>"
  have f1: "fireRuleEvent r JSUndefined True ?s1 =
      Ok () (?s1\<lparr>trace := trace ?s1
              @ map (\<lambda>cb. RuleListenerCall cb (context_of sc) r JSUndefined)
                  (fired_listeners (get_ruleListeners t ?s1)
                     (property_key (get_prop (ruleInfo r) ''name'')) True)\<rparr>)" (is "_ = Ok () ?s2")
    by (rule fireRuleEvent_trace) (simp_all add: L sc plain)
  let ?s3 = "?s2\<lparr>trace := trace ?s2 @ [HandlerCall ?m r]\<rparr>"
  have f2: "fireRuleEvent r JSUndefined False ?s3 =
      Ok () (?s3\<lparr>trace := trace ?s3
              @ map (\<lambda>cb. RuleListenerCall cb (context_of sc) r JSUndefined)
                  (fired_listeners (get_ruleListeners t ?s3)
                     (property_key (get_prop (ruleInfo r) ''name'')) False)\<rparr>)" (is "_ = Ok () ?s4")
    by (rule fireRuleEvent_trace) (simp_all add: L sc plain)
  from ok n m have "processRule r s = Ok () ?s4"
    using f1 f2 by (simp add: Let_def del: fireRuleEvent.simps split: option.splits if_splits)
  with ok have "s' = ?s4" by simp
  with n show ?thesis by (simp add: rule_events_def Let_def)
qed

lemma processRules_trace:
  assumes "currentRuleListeners s = Some t" and "currentScope s = Some sc"
    and "processRules rs s = Ok u s'"
  shows "s' = s\<lparr>trace := trace s
                  @ concat (map (rule_events (get_ruleListeners t s) (context_of sc)) rs)\<rparr>"
  using assms
proof (induction rs arbitrary: s)
  case Nil
  then show ?case by simp
next
  case (Cons r rs)
  from Cons.prems(3) obtain s1 where 1: "processRule r s = Ok () s1"
    and 2: "processRules rs s1 = Ok u s'"
    by (auto simp del: processRule.simps elim!: and_then_OkE)
  from processRule_trace [OF Cons.prems(1,2) 1]
  have s1: "s1 = s\<lparr>trace := trace s @ rule_events (get_ruleListeners t s) (context_of sc) r\<rparr>" .
  then have "currentRuleListeners s1 = Some t" "currentScope s1 = Some sc"
    using Cons.prems(1,2) by simp_all
  from Cons.IH [OF this 2] s1 show ?case by simp
qed

text \<open>
  The validation loop passes every \<open>ruleInfo\<close> that has no property named by an
  index, whatever its keys are.
\<close>

lemma check_rule_keys_no_index_keys:
  "(\<And>i. i \<in> set js \<Longrightarrow> map_of info (index_name i) = None) \<Longrightarrow> check_rule_keys info js = None"
  by (induction js) (simp_all add: get_prop_def)

text \<open>
  C1. The specification: for every node the dispatcher processes, the rule event
  fires twice, pre-order then post-order, and the node's handler is evaluated once, its
  one result going to both firings. What \<open>_processRule\<close> does in a pass (a
  listener set is active, a scope is current), whenever it returns: the rule method of the node's kind is called, the pre-order firing is made with its
  result, the rule method is called a second time, and the post-order firing is made
  with the result of that second call. The event does fire exactly twice, but the
  handler is evaluated twice, once before each firing. (The listeners a firing calls
  are those of \<open>fired_listeners\<close>.)
\<close>

theorem processRule_calls_handler_twice:
  assumes L: "currentRuleListeners s = Some t" and sc: "currentScope s = Some sc"
    and ok: "processRule r s = Ok u s'"
  shows "\<exists>n. get_prop (ruleInfo r) ''name'' = JSStr n \<and>
           s' = s\<lparr>trace := trace s
             @ [HandlerCall (''_processRule'' @ capitalize n) r]
             @ map (\<lambda>cb. RuleListenerCall cb (context_of sc) r JSUndefined)
                 (fired_listeners (get_ruleListeners t s) n True)
             @ [HandlerCall (''_processRule'' @ capitalize n) r]
             @ map (\<lambda>cb. RuleListenerCall cb (context_of sc) r JSUndefined)
                 (fired_listeners (get_ruleListeners t s) n False)\<rparr>"
proof -
  from ok obtain n where n: "get_prop (ruleInfo r) ''name'' = JSStr n"
    by (auto simp: Let_def split: option.splits if_splits jsvalue.splits)
  from processRule_trace [OF L sc ok] n show ?thesis
    by (simp add: rule_events_def Let_def)
qed

theorem processRule_calls_handler_twice_witness:
  "currentRuleListeners walking_engine = Some DefaultSet \<and>
   currentScope walking_engine = Some global_scope \<and>
   thrown (processRule debugger_rule walking_engine) = None \<and>
   trace (state_of (processRule debugger_rule walking_engine)) =
     [HandlerCall ''_processRuleDebugger'' debugger_rule,
      RuleListenerCall 1 global_context debugger_rule JSUndefined,
      HandlerCall ''_processRuleDebugger'' debugger_rule,
      RuleListenerCall 2 global_context debugger_rule JSUndefined,
      RuleListenerCall 3 global_context debugger_rule JSUndefined]"
proof -
  obtain s' where ok: "processRule debugger_rule walking_engine = Ok () s'"
    by (simp add: walking_engine_def debugger_listeners_def eval_defs)
  have L: "currentRuleListeners walking_engine = Some DefaultSet"
    by (simp add: walking_engine_def)
  have sc: "currentScope walking_engine = Some global_scope"
    by (simp add: walking_engine_def)
  from processRule_calls_handler_twice [OF L sc ok] ok L sc show ?thesis
    by (auto simp: debugger_rule_def get_prop_def debugger_listeners_def phase_listeners_def
         fired_listeners_def toUpperCase_char_def global_scope_def walking_engine_def)
qed

text \<open>
  C2. The specification: at every firing the listeners of the rule's name are called
  in registration order and after them every \<open>allrules\<close> listener of the phase, none
  skipped. What the code does for \<open>debugger;\<close> on the engine with the post-order
  listeners 2 and 3 of \<open>debugger\<close> and the post-order \<open>allrules\<close> listener 4: the
  post-order firing calls 2 and 3 and returns, and the whole project is processed
  without a call of 4. The second loop of \<open>_fireRuleEvent\<close> starts at the index the
  first loop stopped at, 2, which is past the one wildcard listener. (The listeners of
  the name do come first and in list order, and the order of a list is the order of
  registration.)
\<close>

theorem wildcard_listener_skipped:
  "phase_listeners (get_ruleListeners DefaultSet listening_engine) ''debugger'' False = [2, 3] \<and>
   phase_listeners (get_ruleListeners DefaultSet listening_engine) ''allrules'' False = [4] \<and>
   thrown (processProject (project_env [debugger_rule]) ''Resources/app.js'' listening_engine) = None \<and>
   trace (state_of (processProject (project_env [debugger_rule]) ''Resources/app.js'' listening_engine)) =
     [HandlerCall ''_processRuleDebugger'' debugger_rule,
      RuleListenerCall 1 global_context debugger_rule JSUndefined,
      HandlerCall ''_processRuleDebugger'' debugger_rule,
      RuleListenerCall 2 global_context debugger_rule JSUndefined,
      RuleListenerCall 3 global_context debugger_rule JSUndefined] \<and>
   fireRuleEvent debugger_rule JSUndefined False walking_engine =
     Ok () (walking_engine\<lparr>trace :=
       [RuleListenerCall 2 global_context debugger_rule JSUndefined,
        RuleListenerCall 3 global_context debugger_rule JSUndefined]\<rparr>)"
  by (simp add: listening_engine_def walking_engine_def debugger_listeners_def eval_defs)

text \<open>
  C3. The specification: a node whose \<open>ruleInfo\<close> has a key besides \<open>name\<close>,
  \<open>start\<close> and \<open>end\<close> makes the dispatcher throw before any rule event fires. What
  the code does with the node of \<open>debugger;\<close> carrying the extra key \<open>extra\<close>: the
  validation loop reads \<open>ruleInfo["0"]\<close>, ..., \<open>ruleInfo["3"]\<close>, which are all
  \<open>undefined\<close>, so nothing is thrown and the node is dispatched like the well-formed
  one: the rule method is called and both firings are made (they call the listeners
  1, then 2 and 3). A node that lacks \<open>end\<close> is refused before any call, as specified.
\<close>

theorem extra_key_is_dispatched:
  "thrown (processRule extra_key_rule walking_engine) = None \<and>
   trace (state_of (processRule extra_key_rule walking_engine)) =
     [HandlerCall ''_processRuleDebugger'' extra_key_rule,
      RuleListenerCall 1 global_context extra_key_rule JSUndefined,
      HandlerCall ''_processRuleDebugger'' extra_key_rule,
      RuleListenerCall 2 global_context extra_key_rule JSUndefined,
      RuleListenerCall 3 global_context extra_key_rule JSUndefined] \<and>
   processRule no_end_rule walking_engine = Thrown MissingRuleKey walking_engine"
  by (simp add: walking_engine_def debugger_listeners_def extra_key_rule_def no_end_rule_def
                eval_defs)

subsection \<open>Passes\<close>

text \<open>What a pass starts from: everything but the current scope is set anew.\<close>

lemma initProcessingData_fresh:
  "initProcessingData entryPoint s =
     Ok () (s\<lparr>scopes := Some [\<lparr> context_of = \<lparr> ctx_name = ''@global'', ctx_file = entryPoint,
                                                  ctx_line = 0, ctx_col = 0 \<rparr>, symbols = [] \<rparr>],
              callStack := Some [], moduleList := Some [], scopeStack := Some [],
              currentGlobalScope := Some \<lparr> context_of = \<lparr> ctx_name = ''@global'',
                  ctx_file = entryPoint, ctx_line = 0, ctx_col = 0 \<rparr>, symbols = [] \<rparr>,
              masterGlobalScope := Some \<lparr> context_of = \<lparr> ctx_name = ''@global'',
                  ctx_file = entryPoint, ctx_line = 0, ctx_col = 0 \<rparr>, symbols = [] \<rparr>\<rparr>)"
  by (simp add: Let_def)

lemma fireProcessStateEvent_trace:
  assumes "currentProcessStateListeners s = Some t"
    and "fireProcessStateEvent e d s = Ok u s'"
  shows "s' = s\<lparr>trace := trace s @
           (case currentScope s of None \<Rightarrow> []
            | Some sc \<Rightarrow> map (\<lambda>cb. StateListenerCall cb (context_of sc) (if truthy d then d else JSObject []))
                          (state_listeners (get_processStateListeners t s) e))\<rparr>"
proof (cases "currentScope s")
  case None
  with assms have "state_listeners (get_processStateListeners t s) e = []"
    by (cases "state_listeners (get_processStateListeners t s) e") simp_all
  with assms None show ?thesis by simp
next
  case (Some sc)
  with assms show ?thesis by (simp add: call_state_listeners_trace)
qed

text \<open>The whole trace of a pass over a plain script that parses.\<close>

lemma plain_pass_trace:
  assumes ex: "existsSync env e"
    and parse: "parse_file env e = Inr (Root ''toplevel'' stmts)"
    and ok: "processProjectHelper env e (activate t s) = Ok u s'"
  shows "trace s' = trace s
       @ (case currentScope s of None \<Rightarrow> []
          | Some old \<Rightarrow> map (\<lambda>cb. StateListenerCall cb (context_of old) (JSObject [(''file'', JSStr e)]))
                          (state_listeners (get_processStateListeners t s) FileProcessingBegin))
       @ map (\<lambda>cb. StateListenerCall cb
                \<lparr> ctx_name = ''@global'', ctx_file = e, ctx_line = 0, ctx_col = 0 \<rparr>
                (JSObject [(''previousContext'',
                   (case currentScope s of None \<Rightarrow> JSUndefined
                    | Some old \<Rightarrow> context_value (context_of old)))]))
           (state_listeners (get_processStateListeners t s) ContextChange)
       @ concat (map (rule_events (get_ruleListeners t s)
                        \<lparr> ctx_name = ''@global'', ctx_file = e, ctx_line = 0, ctx_col = 0 \<rparr>) stmts)"
proof -
  let ?g = "\<lparr> context_of = \<lparr> ctx_name = ''@global'', ctx_file = e, ctx_line = 0, ctx_col = 0 \<rparr>,
              symbols = [] \<rparr>"
  let ?P = "get_processStateListeners t s"
  let ?s0 = "(activate t s)\<lparr>scopes := Some [?g], callStack := Some [], moduleList := Some [],
               scopeStack := Some [], currentGlobalScope := Some ?g, masterGlobalScope := Some ?g\<rparr>"
  have "initProcessingData e (activate t s) = Ok () ?s0"
    by (simp add: Let_def)
  with ok have pf: "processFile env e False ?s0 = Ok u s'"
    by (simp del: processFile.simps initProcessingData.simps)
  from processFile_steps [OF ex pf] obtain s1 s2 s3 where
    1: "fireProcessStateEvent FileProcessingBegin (JSObject [(''file'', JSStr e)]) ?s0 = Ok () s1"
    and 2: "s2 = s1"
    and 3: "enterScope (currentGlobalScope s2) s2 = Ok () s3"
    and 4: "processRules stmts s3 = Ok u s'"
    using parse by (auto simp del: fireProcessStateEvent.simps enterScope.simps)
  have P0: "currentProcessStateListeners ?s0 = Some t" by (simp add: activate_def)
  have G0: "get_processStateListeners t ?s0 = ?P"
    by (rule get_processStateListeners_same_sets) (simp_all add: activate_def)
  from fireProcessStateEvent_trace [OF P0 1, unfolded G0]
  have s1: "s1 = ?s0\<lparr>trace := trace s @
           (case currentScope s of None \<Rightarrow> []
            | Some sc \<Rightarrow> map (\<lambda>cb. StateListenerCall cb (context_of sc) (JSObject [(''file'', JSStr e)]))
                          (state_listeners ?P FileProcessingBegin))\<rparr>"
    (is "_ = ?s1")
    by (simp add: activate_def)
  let ?d = "JSObject [(''previousContext'',
                   (case currentScope s of None \<Rightarrow> JSUndefined
                    | Some old \<Rightarrow> context_value (context_of old)))]"
  let ?s2' = "?s1\<lparr>currentScope := Some ?g, scopeStack := Some [Some ?g]\<rparr>"
  from 3 2 s1 have e3: "fireProcessStateEvent ContextChange ?d ?s2' = Ok () s3"
    by (simp add: Let_def activate_def del: fireProcessStateEvent.simps)
  have P2: "currentProcessStateListeners ?s2' = Some t" by (simp add: activate_def)
  have G2: "get_processStateListeners t ?s2' = ?P"
    by (rule get_processStateListeners_same_sets) (simp_all add: activate_def)
  from fireProcessStateEvent_trace [OF P2 e3, unfolded G2]
  have s3: "s3 = ?s2'\<lparr>trace := trace ?s2' @
        map (\<lambda>cb. StateListenerCall cb (context_of ?g) ?d) (state_listeners ?P ContextChange)\<rparr>"
    by simp
  then have L3: "currentRuleListeners s3 = Some t" and c3: "currentScope s3 = Some ?g"
    by (simp_all add: activate_def)
  have G3: "get_ruleListeners t s3 = get_ruleListeners t s"
    by (rule get_ruleListeners_same_sets) (simp_all add: s3 activate_def)
  from processRules_trace [OF L3 c3 4] s3 G3 show ?thesis by simp
qed

text \<open>The scopes of the engine after a pass over a file that exists.\<close>

lemma pass_final_state:
  assumes ex: "existsSync env e"
    and ok: "processProjectHelper env e s = Ok u s'"
  shows "scopes s' = Some [\<lparr> context_of = \<lparr> ctx_name = ''@global'', ctx_file = e, ctx_line = 0, ctx_col = 0 \<rparr>, symbols = [] \<rparr>] \<and>
         scopeStack s' = Some [Some \<lparr> context_of = \<lparr> ctx_name = ''@global'', ctx_file = e, ctx_line = 0, ctx_col = 0 \<rparr>, symbols = [] \<rparr>] \<and>
         currentScope s' = Some \<lparr> context_of = \<lparr> ctx_name = ''@global'', ctx_file = e, ctx_line = 0, ctx_col = 0 \<rparr>, symbols = [] \<rparr> \<and>
         masterGlobalScope s' = Some \<lparr> context_of = \<lparr> ctx_name = ''@global'', ctx_file = e, ctx_line = 0, ctx_col = 0 \<rparr>, symbols = [] \<rparr> \<and>
         callStack s' = Some [] \<and> moduleList s' = Some []"
proof -
  let ?g = "\<lparr> context_of = \<lparr> ctx_name = ''@global'', ctx_file = e, ctx_line = 0, ctx_col = 0 \<rparr>,
              symbols = [] \<rparr>"
  let ?s0 = "s\<lparr>scopes := Some [?g], callStack := Some [], moduleList := Some [],
               scopeStack := Some [], currentGlobalScope := Some ?g, masterGlobalScope := Some ?g\<rparr>"
  have "initProcessingData e s = Ok () ?s0"
    by (simp add: Let_def)
  with ok have pf: "processFile env e False ?s0 = Ok u s'"
    by (simp del: processFile.simps initProcessingData.simps)
  from processFile_steps [OF ex pf] obtain s1 s3 where
    1: "fireProcessStateEvent FileProcessingBegin (JSObject [(''file'', JSStr e)]) ?s0 = Ok () s1"
    and 3: "enterScope (currentGlobalScope s1) s1 = Ok () s3"
    and 4: "(case parse_file env e of
              Inl (ParseFailure m l c) \<Rightarrow>
                fireProcessStateEvent ParseError
                  (JSObject [(''message'', m), (''file'', JSStr e), (''line'', l), (''col'', c)]) s3
            | Inr OtherRoot \<Rightarrow> Thrown UnrecognizedTree s3
            | Inr (Root t stmts) \<Rightarrow>
                if t = ''toplevel'' then processRules stmts s3 else Thrown UnrecognizedTree s3) = Ok u s'"
    by (auto simp del: fireProcessStateEvent.simps enterScope.simps)
  from fireProcessStateEvent_frame [OF 1] obtain t1 where s1: "s1 = ?s0\<lparr>trace := t1\<rparr>" by blast
  from enterScope_Ok [OF 3] obtain stk t3 where
    "scopeStack s1 = Some stk"
    and s3: "s3 = s1\<lparr>currentScope := currentGlobalScope s1,
                     scopeStack := Some (stk @ [currentGlobalScope s1]), trace := t3\<rparr>"
    by blast
  with s1 have stk: "stk = []" by simp
  from after_parse_frame [OF 4] obtain t4 where "s' = s3\<lparr>trace := t4\<rparr>" by blast
  with s3 s1 stk show ?thesis by simp
qed

text \<open>No scope a pass leaves behind declares a name.\<close>

lemma pass_declares_nothing:
  assumes "existsSync env e" and "processProjectHelper env e s = Ok u s'"
  shows "declaring_scopes nm s' = []"
  using pass_final_state [OF assms]
  by (simp add: declaring_scopes_def all_scopes_def)

text \<open>
  C4. The specification: one pass per tag in registration order, then the default
  pass, each with a fresh master global scope, scope history and module cache, so that
  no mutable analysis state crosses a pass boundary. The passes run in that order, and each
  starts with a new history, stack, module list and global scope
  (\<open>initProcessingData_fresh\<close>). But the initialisation of a pass leaves the current
  scope as the pass before left it, bindings included. Its effect shows in the first
  event of the next pass: with a \<open>fileProcessingBegin\<close> listener in the default set,
  the default pass throws a TypeError when it is the first pass of the engine (there
  is no current scope yet), and calls the listener with the context of the scope of
  pass \<open>A\<close> when pass \<open>A\<close> has run before it.
\<close>

theorem current_scope_crosses_passes:
  "currentScope (state_of (initProcessingData entryPoint s)) = currentScope s \<and>
   thrown (processProject (project_env [debugger_rule]) ''Resources/app.js'' begin_listener_engine)
     = Some TypeError \<and>
   trace (state_of (processProject (project_env [debugger_rule]) ''Resources/app.js'' begin_listener_engine))
     = [] \<and>
   thrown (processProject (project_env [debugger_rule]) ''Resources/app.js'' tagged_begin_engine)
     = None \<and>
   trace (state_of (processProject (project_env [debugger_rule]) ''Resources/app.js'' tagged_begin_engine))
     = [HandlerCall ''_processRuleDebugger'' debugger_rule,
        HandlerCall ''_processRuleDebugger'' debugger_rule,
        RuleListenerCall 1 global_context debugger_rule JSUndefined,
        StateListenerCall 8 global_context (JSObject [(''file'', JSStr ''Resources/app.js'')]),
        HandlerCall ''_processRuleDebugger'' debugger_rule,
        HandlerCall ''_processRuleDebugger'' debugger_rule]"
  by (auto simp add: begin_listener_engine_def tagged_begin_engine_def eval_defs split: option.splits)

subsection \<open>lookupVariable\<close>

text \<open>
  C5, amended. When no scope the engine holds declares the name, \<open>lookupVariable\<close>
  returns \<open>undefined\<close> and leaves the engine as it is; it does not throw. (The
  specification has it return the unknown-type marker, a JSValue.)
\<close>

theorem lookupVariable_undeclared:
  "declaring_scopes nm s = [] \<Longrightarrow> lookupVariable nm s = Ok JSUndefined s"
  by (simp add: lookupVariable_def)

theorem lookupVariable_undeclared_witness:
  "declaring_scopes ''x'' walking_engine = [] \<and>
   lookupVariable ''x'' walking_engine = Ok JSUndefined walking_engine"
proof -
  have d: "declaring_scopes ''x'' walking_engine = []"
    by (simp add: declaring_scopes_def all_scopes_def walking_engine_def global_scope_def)
  from lookupVariable_undeclared [OF d] d show ?thesis by simp
qed

text \<open>
  The unamended statement fails for the name \<open>x\<close> in the middle of a pass: no scope
  declares it, and the result is \<open>undefined\<close>, which is not a JSValue.
\<close>

theorem lookupVariable_no_marker_counterexample:
  "declaring_scopes ''x'' walking_engine = [] \<and>
   lookupVariable ''x'' walking_engine = Ok JSUndefined walking_engine \<and>
   \<not> is_JSValue JSUndefined"
  by (simp add: declaring_scopes_def all_scopes_def walking_engine_def global_scope_def lookupVariable_def)

subsection \<open>Entering scopes\<close>

text \<open>
  C6. The specification: the \<open>contextChange\<close> event for the first scope of every
  pass has no previous context. What the code does with one \<open>contextChange\<close> listener in the set
  tagged \<open>A\<close> (callback 6) and one in the default set (callback 7), on an empty
  \<open>app.js\<close>: the first pass reports \<open>undefined\<close>, the second pass reports the
  context of the scope the first pass ended in.
\<close>

theorem second_pass_gets_previous_context:
  "thrown (processProject (project_env []) ''Resources/app.js'' two_pass_engine) = None \<and>
   trace (state_of (processProject (project_env []) ''Resources/app.js'' two_pass_engine)) =
     [StateListenerCall 6 global_context (JSObject [(''previousContext'', JSUndefined)]),
      StateListenerCall 7 global_context
        (JSObject [(''previousContext'', context_value global_context)])]"
  by (simp add: two_pass_engine_def eval_defs)

subsection \<open>Processing a file\<close>

text \<open>
  C7. The specification: on a parse failure the \<open>parseError\<close> event carries the
  fields \<open>message\<close>, \<open>file\<close>, \<open>line\<close> and \<open>column\<close>, and the file fires no rule
  event.
  What the code does on a file that does not parse, with a \<open>parseError\<close> listener
  (callback 9) and a wildcard rule listener: it returns normally after the one call of
  callback 9 and no rule listener is called, but the payload's fourth key is \<open>col\<close>;
  it has no \<open>column\<close>.
\<close>

theorem parseError_payload_has_col:
  "thrown (processProject broken_env ''Resources/app.js'' parse_error_engine) = None \<and>
   trace (state_of (processProject broken_env ''Resources/app.js'' parse_error_engine)) =
     [StateListenerCall 9 global_context
        (JSObject [(''message'', JSStr ''Unexpected token''), (''file'', JSStr ''Resources/app.js''),
                   (''line'', JSNum 1), (''col'', JSNum 4)])] \<and>
   get_prop [(''message'', JSStr ''Unexpected token''), (''file'', JSStr ''Resources/app.js''),
             (''line'', JSNum 1), (''col'', JSNum 4)] ''column'' = JSUndefined"
  by (simp add: parse_error_engine_def broken_env_def eval_defs)

text \<open>
  C8. For a path that does not exist, \<open>_processFile\<close> fires \<open>fileLoadError\<close> with
  the file and "File Not Found" and returns: the listeners of \<open>fileLoadError\<close> in
  the active set are called, in order, with the current context and that payload, and
  nothing else of the engine changes. No \<open>fileProcessingBegin\<close> listener is called,
  no scope is created or entered, and nothing is thrown, so whatever follows the call
  in the pass goes on. The engine is one in a pass, with a scope current: \<open>process\<close>
  starts a pass only when the entry file exists, so that the file's scope has been
  entered before \<open>_processFile\<close> can come to a file that is missing.
\<close>

theorem processFile_missing_file:
  assumes "\<not> existsSync env f" and "currentProcessStateListeners s = Some t"
    and "currentScope s = Some sc"
  shows "processFile env f createContext s =
     Ok () (s\<lparr>trace := trace s @
        map (\<lambda>cb. StateListenerCall cb (context_of sc)
               (JSObject [(''file'', JSStr f), (''error'', JSStr ''File Not Found'')]))
            (state_listeners (get_processStateListeners t s) FileLoadError)\<rparr>)"
  using assms by (simp add: call_state_listeners_trace)

theorem processFile_missing_file_witness:
  "\<not> existsSync missing_env ''Resources/lib.js'' \<and>
   currentProcessStateListeners loaded_engine = Some DefaultSet \<and>
   currentScope loaded_engine = Some global_scope \<and>
   state_listeners (get_processStateListeners DefaultSet loaded_engine) FileLoadError = [5] \<and>
   processFile missing_env ''Resources/lib.js'' True loaded_engine =
     Ok () (loaded_engine\<lparr>trace := trace loaded_engine @
        [StateListenerCall 5 global_context
           (JSObject [(''file'', JSStr ''Resources/lib.js''), (''error'', JSStr ''File Not Found'')])]\<rparr>)"
proof -
  have ex: "\<not> existsSync missing_env ''Resources/lib.js''" by (simp add: missing_env_def)
  have P: "currentProcessStateListeners loaded_engine = Some DefaultSet"
    and sc: "currentScope loaded_engine = Some global_scope"
    and L: "state_listeners (get_processStateListeners DefaultSet loaded_engine) FileLoadError = [5]"
    by (simp_all add: loaded_engine_def load_error_engine_def eval_defs)
  from processFile_missing_file [OF ex P sc, of True] ex P sc L show ?thesis
    by (simp add: global_scope_def del: processFile.simps)
qed

text \<open>
  C9, amended. When \<open>_processFile\<close> returns for a file that exists, the scope it
  entered is still on the stack: the stack is the stack from before with that scope
  pushed, and that scope is the current scope. The history keeps what it had; a scope
  created for the file is appended to it, and otherwise the history and the global
  scope are as before.
\<close>

theorem processFile_leaves_scope_on_stack:
  assumes ex: "existsSync env f"
    and ok: "processFile env f createContext s = Ok u s'"
    and stk: "scopeStack s = Some stk"
  shows "scopeStack s' = Some (stk @ [currentGlobalScope s']) \<and>
         currentScope s' = currentGlobalScope s' \<and>
         (if createContext
          then \<exists>h g. scopes s = Some h \<and> scopes s' = Some (h @ [g]) \<and> currentGlobalScope s' = Some g
          else scopes s' = scopes s \<and> currentGlobalScope s' = currentGlobalScope s)"
proof -
  from processFile_steps [OF ex ok] obtain s1 s2 s3 where
    1: "fireProcessStateEvent FileProcessingBegin (JSObject [(''file'', JSStr f)]) s = Ok () s1"
    and 2: "(if createContext
             then and_then (createScope (''@scopedglobal-'' @ f) f 0 0 s1)
                    (\<lambda>g s2. Ok () (s2\<lparr>currentGlobalScope := Some g\<rparr>))
             else Ok () s1) = Ok () s2"
    and 3: "enterScope (currentGlobalScope s2) s2 = Ok () s3"
    and 4: "(case parse_file env f of
              Inl (ParseFailure m l c) \<Rightarrow>
                fireProcessStateEvent ParseError
                  (JSObject [(''message'', m), (''file'', JSStr f), (''line'', l), (''col'', c)]) s3
            | Inr OtherRoot \<Rightarrow> Thrown UnrecognizedTree s3
            | Inr (Root t stmts) \<Rightarrow>
                if t = ''toplevel'' then processRules stmts s3 else Thrown UnrecognizedTree s3) = Ok u s'"
    by blast
  from fireProcessStateEvent_frame [OF 1] obtain t1 where s1: "s1 = s\<lparr>trace := t1\<rparr>" by blast
  from after_parse_frame [OF 4] obtain t4 where s': "s' = s3\<lparr>trace := t4\<rparr>" by blast
  from enterScope_Ok [OF 3] obtain stk2 t3 where
    stk2: "scopeStack s2 = Some stk2"
    and s3: "s3 = s2\<lparr>currentScope := currentGlobalScope s2,
                     scopeStack := Some (stk2 @ [currentGlobalScope s2]), trace := t3\<rparr>"
    by blast
  show ?thesis
  proof (cases createContext)
    case True
    with 2 obtain g s2' where c: "createScope (''@scopedglobal-'' @ f) f 0 0 s1 = Ok g s2'"
      and s2: "s2 = s2'\<lparr>currentGlobalScope := Some g\<rparr>"
      by (auto simp del: createScope.simps elim!: and_then_OkE)
    from createScope_Ok [OF c] obtain h where
      h: "scopes s1 = Some h" and s2': "s2' = s1\<lparr>scopes := Some (h @ [g])\<rparr>" by blast
    from h s1 have hs: "scopes s = Some h" by simp
    from stk2 s2 s2' s1 stk have "stk2 = stk" by simp
    with True s' s3 s2 s2' s1 hs show ?thesis by simp
  next
    case False
    with 2 have s2: "s2 = s1" by simp
    from stk2 s2 s1 stk have "stk2 = stk" by simp
    with False s' s3 s2 s1 show ?thesis by simp
  qed
qed

theorem processFile_leaves_scope_on_stack_witness:
  "existsSync (project_env [debugger_rule]) ''Resources/app.js'' \<and>
   thrown (processFile (project_env [debugger_rule]) ''Resources/app.js'' False entering_engine) = None \<and>
   scopeStack entering_engine = Some [] \<and>
   scopeStack (state_of (processFile (project_env [debugger_rule]) ''Resources/app.js'' False entering_engine))
     = Some [Some global_scope] \<and>
   currentScope (state_of (processFile (project_env [debugger_rule]) ''Resources/app.js'' False entering_engine))
     = Some global_scope \<and>
   scopes (state_of (processFile (project_env [debugger_rule]) ''Resources/app.js'' False entering_engine))
     = Some [global_scope]"
proof -
  let ?env = "project_env [debugger_rule]"
  have ex: "existsSync ?env ''Resources/app.js''" by (simp add: project_env_def)
  obtain s' where ok: "processFile ?env ''Resources/app.js'' False entering_engine = Ok () s'"
    by (simp add: entering_engine_def walking_engine_def debugger_listeners_def eval_defs)
  have stk: "scopeStack entering_engine = Some []"
    by (simp add: entering_engine_def walking_engine_def)
  have g: "currentGlobalScope entering_engine = Some global_scope"
    and h: "scopes entering_engine = Some [global_scope]"
    by (simp_all add: entering_engine_def walking_engine_def)
  from processFile_leaves_scope_on_stack [OF ex ok stk] ok ex stk g h show ?thesis by simp
qed

text \<open>
  The unamended statement has the stack restored; it fails on \<open>debugger;\<close>: the
  stack is empty before the file and holds the global scope after it.
\<close>

theorem scope_stack_not_restored_counterexample:
  "scopeStack entering_engine = Some [] \<and>
   thrown (processFile (project_env [debugger_rule]) ''Resources/app.js'' False entering_engine) = None \<and>
   scopeStack (state_of (processFile (project_env [debugger_rule]) ''Resources/app.js'' False entering_engine))
     = Some [Some global_scope] \<and>
   scopeStack (state_of (processFile (project_env [debugger_rule]) ''Resources/app.js'' False entering_engine))
     \<noteq> scopeStack entering_engine"
  by (simp add: entering_engine_def walking_engine_def debugger_listeners_def eval_defs)

subsection \<open>Registering listeners\<close>




end
